theory Spec2Isabelle
  imports Main "HOL-Library.Word" "HOL-Library.Sublist"
begin

section \<open>The meeting session controller (hook \<open>useActiveMeetingLogic\<close>)\<close>

text \<open>
  The hook of \<^verbatim>\<open>src/app/hooks/useActiveMeetingLogic.ts\<close> keeps its state in React state
  cells and talks to three collaborators: the transport (the room and its local participant),
  the host process (the optional \<^verbatim>\<open>window.ipcRenderer\<close> bridge) and the browser (clock, device
  enumeration, local storage, toasts). The model is explicit state passing: one record
  \<open>world\<close> holds the state cells the handlers read and write, what the collaborators
  report, and a log of every call the handlers make on a collaborator. Each handler is a
  function from \<open>world\<close> to \<open>world\<close>. What an \<^verbatim>\<open>await\<close> yields is an argument of the
  handler: the promise either resolves or rejects with an error object.
\<close>

subsection \<open>Strings\<close>

text \<open>
  A JavaScript string is a sequence of UTF-16 code units. \<open>js\<close> writes an ASCII literal as
  such a sequence.
\<close>

type_synonym jsstring = "16 word list"

definition js :: "string \<Rightarrow> jsstring" where
  "js s = map (\<lambda>c. of_nat (of_char c)) s"

text \<open>
  \<^verbatim>\<open>String.prototype.trim\<close> removes WhiteSpace and LineTerminator code points from both
  ends: TAB, VT, FF, SP, NBSP, ZWNBSP, the category Zs (U+1680, U+2000..U+200A, U+202F,
  U+205F, U+3000), and LF, CR, LS, PS.
\<close>

definition isWhiteSpace :: "16 word \<Rightarrow> bool" where
  "isWhiteSpace c \<longleftrightarrow>
     c \<in> set [0x09, 0x0B, 0x0C, 0x20, 0xA0, 0xFEFF, 0x1680, 0x202F, 0x205F, 0x3000,
               0x0A, 0x0D, 0x2028, 0x2029]
     \<or> (0x2000 \<le> c \<and> c \<le> 0x200A)"

definition trim :: "jsstring \<Rightarrow> jsstring" where
  "trim s = rev (dropWhile isWhiteSpace (rev (dropWhile isWhiteSpace s)))"

text \<open>A string is truthy when it is not empty.\<close>

definition truthy :: "jsstring \<Rightarrow> bool" where
  "truthy s \<longleftrightarrow> s \<noteq> []"

text \<open>\<^verbatim>\<open>s.includes(sub)\<close>: \<open>sub\<close> occurs in \<open>s\<close> as a contiguous run.\<close>

fun startsWith :: "jsstring \<Rightarrow> jsstring \<Rightarrow> bool" where
  "startsWith s [] = True"
| "startsWith [] (c # sub) = False"
| "startsWith (d # s) (c # sub) = (d = c \<and> startsWith s sub)"

fun includes_str :: "jsstring \<Rightarrow> jsstring \<Rightarrow> bool" where
  "includes_str [] sub = (sub = [])"
| "includes_str (d # s) sub = (startsWith (d # s) sub \<or> includes_str s sub)"

text \<open>\<^verbatim>\<open>Number.prototype.toString\<close> on an integer: its decimal digits, with a sign.\<close>

fun digitsOf :: "nat \<Rightarrow> jsstring" where
  "digitsOf n = (if n < 10 then [of_nat (48 + n)]
                 else digitsOf (n div 10) @ [of_nat (48 + n mod 10)])"

declare digitsOf.simps [simp del]

definition toString :: "int \<Rightarrow> jsstring" where
  "toString i = (if i < 0 then 0x2D # digitsOf (nat (- i)) else digitsOf (nat i))"

subsection \<open>Data model\<close>

datatype Lang = ja | ko

datatype MediaDeviceKind = audioinput | audiooutput | videoinput

record MediaDeviceInfo =
  deviceId :: jsstring
  kind :: MediaDeviceKind
  label :: jsstring

text \<open>\<^verbatim>\<open>interface Participant\<close>; an optional field is an \<open>option\<close>.\<close>

record Participant =
  p_id :: jsstring
  p_name :: jsstring
  p_isVideoOn :: bool
  p_isMuted :: bool
  p_isSpeaking :: "bool option"
  p_language :: "Lang option"

text \<open>A \<^verbatim>\<open>Date\<close> is its time value, milliseconds since the epoch.\<close>

type_synonym Date = int

record TranslationLog =
  t_id :: jsstring
  t_speaker :: jsstring
  t_originalText :: jsstring
  t_translatedText :: jsstring
  t_originalLang :: Lang
  t_timestamp :: Date

record ChatMessage =
  c_id :: jsstring
  c_sender :: jsstring
  c_message :: jsstring
  c_timestamp :: Date
  c_isAI :: "bool option"
  c_fileUrl :: "jsstring option"

text \<open>\<^verbatim>\<open>currentUserProp\<close> is untyped; the hook reads its \<open>name\<close> and \<open>language\<close>.\<close>

record User =
  u_name :: jsstring
  u_language :: "Lang option"

record ScreenSource =
  s_id :: jsstring
  s_name :: jsstring
  s_thumbnail :: jsstring

subsection \<open>Collaborators\<close>

text \<open>
  The room answers \<^verbatim>\<open>getActiveDevice(kind)\<close> with a device id or \<^verbatim>\<open>undefined\<close>; the local
  participant has the transport's own screen-share flag.
\<close>

record Room =
  activeAudioInput :: "jsstring option"
  activeVideoInput :: "jsstring option"
  activeAudioOutput :: "jsstring option"

fun getActiveDevice :: "Room \<Rightarrow> MediaDeviceKind \<Rightarrow> jsstring option" where
  "getActiveDevice r audioinput = activeAudioInput r"
| "getActiveDevice r videoinput = activeVideoInput r"
| "getActiveDevice r audiooutput = activeAudioOutput r"

record LocalParticipant =
  isScreenShareEnabled :: bool

text \<open>An error object thrown by a collaborator: \<^verbatim>\<open>e.name\<close> and the optional \<^verbatim>\<open>e.message\<close>.\<close>

record JsError =
  e_name :: jsstring
  e_message :: "jsstring option"

datatype 'a outcome = Resolved 'a | Rejected JsError

text \<open>Calls the handlers make on the transport, in the order made.\<close>

datatype transport_call =
    SwitchActiveDevice MediaDeviceKind jsstring
  | SetScreenShareEnabled bool

text \<open>
  The toasts. The texts are Japanese literals of the source; each is named here:
  \<open>DeviceChanged\<close> for \<^verbatim>\<open>toast.success\<close> in \<^verbatim>\<open>handleDeviceChange\<close>, \<open>SwitchFailed\<close> for its
  \<^verbatim>\<open>toast.error\<close>, \<open>NoUserInfo\<close>, \<open>Cancelled\<close> and \<open>ShareStartFailed\<close> for the three of
  \<^verbatim>\<open>toggleScreenShare\<close>.
\<close>

datatype toast_text = DeviceChanged | SwitchFailed | NoUserInfo | Cancelled | ShareStartFailed

datatype toast = ToastSuccess toast_text | ToastError toast_text | ToastInfo toast_text

subsection \<open>The meeting record\<close>

text \<open>
  The two language labels are a flag emoji followed by the language's own name; they are
  named \<open>LabelJa\<close> and \<open>LabelKo\<close>.
\<close>

datatype lang_label = LabelJa | LabelKo

record RecParticipant =
  rp_id :: jsstring
  rp_name :: jsstring
  rp_language :: "Lang option"

record RecTranslation =
  rt_id :: jsstring
  rt_speaker :: jsstring
  rt_originalText :: jsstring
  rt_translatedText :: jsstring
  rt_originalLang :: lang_label
  rt_translatedLang :: lang_label
  rt_timestamp :: jsstring

record RecChat =
  rc_id :: jsstring
  rc_userName :: jsstring
  rc_message :: jsstring
  rc_timestamp :: jsstring
  rc_isAI :: "bool option"

text \<open>
  The summary is fixed text of the source; each action item ends with a name in brackets:
  a participant's or the user's name, one of two placeholder literals, or the assistant's.
  \<open>KeyPoint i\<close>, \<open>ActionItem i who\<close> and \<open>Decision i\<close> stand for the i-th literal of
  each list.
\<close>

datatype assignee = Person jsstring | PlaceholderA | PlaceholderB | UriTomoAI

datatype summary_line = KeyPoint nat | ActionItem nat assignee | Decision nat

record Summary =
  keyPoints :: "summary_line list"
  actionItems :: "summary_line list"
  decisions :: "summary_line list"

record MeetingRecord =
  mr_id :: jsstring
  mr_title :: jsstring
  mr_startTime :: jsstring
  mr_endTime :: jsstring
  mr_participants :: "RecParticipant list"
  mr_translationLog :: "RecTranslation list"
  mr_chatMessages :: "RecChat list"
  mr_summary :: Summary

subsection \<open>The state\<close>

record world =
  \<comment> \<open>React state cells\<close>
  currentUser :: User
  mics :: "MediaDeviceInfo list"
  cameras :: "MediaDeviceInfo list"
  speakers :: "MediaDeviceInfo list"
  selectedMicId :: jsstring
  selectedCameraId :: jsstring
  selectedSpeakerId :: jsstring
  isScreenSharing :: bool
  showScreenPickerModal :: bool
  availableScreens :: "ScreenSource list"
  chatInput :: jsstring
  showStickerPicker :: bool
  chatMessages :: "ChatMessage list"
  translationLogs :: "TranslationLog list"
  participants :: "Participant list"
  meetingTitle :: jsstring
  startTime :: Date
  \<comment> \<open>collaborators as the hook sees them\<close>
  room :: "Room option"
  localParticipant :: "LocalParticipant option"
  ipcRenderer :: bool
  \<comment> \<open>calls made on collaborators\<close>
  transportCalls :: "transport_call list"
  hostCalls :: "jsstring option list"
  toasts :: "toast list"
  storedMeetings :: "MeetingRecord list"
  navigations :: "jsstring list"

text \<open>
  The state after the first render: the \<^verbatim>\<open>useState\<close> initial values, for a given user,
  title and start time, the optional \<^verbatim>\<open>initialDevices\<close>, and the collaborators present.
  The mount effect then fills the roster and the translation log with fixed sample entries;
  the properties below hold whatever these cells contain.
\<close>

text \<open>\<^verbatim>\<open>a || b\<close> on an optional string: \<^verbatim>\<open>undefined\<close> and the empty string are falsy.\<close>

definition orElse :: "jsstring option \<Rightarrow> jsstring \<Rightarrow> jsstring" where
  "orElse a b = (case a of None \<Rightarrow> b | Some s \<Rightarrow> if truthy s then s else b)"

definition initialWorld ::
  "User \<Rightarrow> jsstring \<Rightarrow> Date \<Rightarrow> jsstring option \<Rightarrow> jsstring option \<Rightarrow> jsstring option
   \<Rightarrow> Room option \<Rightarrow> LocalParticipant option \<Rightarrow> bool \<Rightarrow> world" where
  "initialWorld user title start audioInputId videoInputId audioOutputId rm lp ipc =
     \<lparr> currentUser = user, mics = [], cameras = [], speakers = [],
       selectedMicId = orElse audioInputId [],
       selectedCameraId = orElse videoInputId [],
       selectedSpeakerId = orElse audioOutputId [],
       isScreenSharing = False, showScreenPickerModal = False, availableScreens = [],
       chatInput = [], showStickerPicker = False,
       chatMessages = [], translationLogs = [], participants = [],
       meetingTitle = title, startTime = start,
       room = rm, localParticipant = lp, ipcRenderer = ipc,
       transportCalls = [], hostCalls = [], toasts = [], storedMeetings = [],
       navigations = [] \<rparr>"

subsection \<open>Chat\<close>

text \<open>
  \<^verbatim>\<open>handleSendChat\<close> reads the clock twice, \<^verbatim>\<open>Date.now()\<close> for the id and \<^verbatim>\<open>new Date()\<close> for
  the timestamp; the two readings are the arguments \<open>idNow\<close> and \<open>tsNow\<close>.
\<close>

definition handleSendChat :: "int \<Rightarrow> Date \<Rightarrow> world \<Rightarrow> world" where
  "handleSendChat idNow tsNow w =
     (if truthy (trim (chatInput w)) then
        w\<lparr> chatMessages := chatMessages w @
              [\<lparr> c_id = toString idNow, c_sender = u_name (currentUser w),
                 c_message = chatInput w, c_timestamp = tsNow,
                 c_isAI = None, c_fileUrl = None \<rparr>],
           chatInput := [] \<rparr>
      else w)"

text \<open>
  \<^verbatim>\<open>handleFileAttach\<close>: the \<^verbatim>\<open>onchange\<close> callback with a chosen file, whose name and object
  URL are arguments; with no file chosen nothing happens.
\<close>

definition handleFileAttach :: "(jsstring \<times> jsstring) option \<Rightarrow> int \<Rightarrow> Date \<Rightarrow> world \<Rightarrow> world" where
  "handleFileAttach file idNow tsNow w =
     (case file of
        None \<Rightarrow> w
      | Some (fileName, url) \<Rightarrow>
          w\<lparr> chatMessages := chatMessages w @
                [\<lparr> c_id = toString idNow, c_sender = u_name (currentUser w),
                   c_message = fileName, c_timestamp = tsNow,
                   c_isAI = Some False, c_fileUrl = Some url \<rparr>] \<rparr>)"

definition handleStickerSelect :: "jsstring \<Rightarrow> int \<Rightarrow> Date \<Rightarrow> world \<Rightarrow> world" where
  "handleStickerSelect sticker idNow tsNow w =
     w\<lparr> chatMessages := chatMessages w @
           [\<lparr> c_id = toString idNow, c_sender = u_name (currentUser w),
              c_message = sticker, c_timestamp = tsNow,
              c_isAI = None, c_fileUrl = None \<rparr>],
        showStickerPicker := False \<rparr>"

definition setChatInput :: "jsstring \<Rightarrow> world \<Rightarrow> world" where
  "setChatInput s w = w\<lparr> chatInput := s \<rparr>"

text \<open>
  The user actions that touch the chat log, each with the two clock readings taken when it
  runs, and a run of such actions one after the other.
  The component renders between two actions, so each handler is the one of the latest
  render and reads the current state.
\<close>

datatype chat_action =
    TypeInput jsstring
  | SendChat
  | SelectSticker jsstring
  | AttachFile "(jsstring \<times> jsstring) option"

fun chatStep :: "int \<times> Date \<times> chat_action \<Rightarrow> world \<Rightarrow> world" where
  "chatStep (idNow, tsNow, TypeInput s) w = setChatInput s w"
| "chatStep (idNow, tsNow, SendChat) w = handleSendChat idNow tsNow w"
| "chatStep (idNow, tsNow, SelectSticker s) w = handleStickerSelect s idNow tsNow w"
| "chatStep (idNow, tsNow, AttachFile f) w = handleFileAttach f idNow tsNow w"

fun chatRun :: "(int \<times> Date \<times> chat_action) list \<Rightarrow> world \<Rightarrow> world" where
  "chatRun [] w = w"
| "chatRun (a # as) w = chatRun as (chatStep a w)"

text \<open>The clock reading of an action, and the entries a run added to the log.\<close>

definition readingOf :: "int \<times> Date \<times> chat_action \<Rightarrow> Date" where
  "readingOf a = fst (snd a)"

definition appended :: "world \<Rightarrow> world \<Rightarrow> ChatMessage list" where
  "appended w w' = drop (length (chatMessages w)) (chatMessages w')"

subsection \<open>Device selection\<close>

record Selection =
  micId :: jsstring
  cameraId :: jsstring
  speakerId :: jsstring

definition selected :: "world \<Rightarrow> Selection" where
  "selected w = \<lparr> micId = selectedMicId w, cameraId = selectedCameraId w,
                   speakerId = selectedSpeakerId w \<rparr>"

text \<open>\<^verbatim>\<open>list.find(d => d.deviceId === i)\<close>\<close>

definition findDevice :: "jsstring \<Rightarrow> MediaDeviceInfo list \<Rightarrow> MediaDeviceInfo option" where
  "findDevice i ds = find (\<lambda>d. deviceId d = i) ds"

text \<open>
  \<^verbatim>\<open>syncDevices\<close>, from the point where \<^verbatim>\<open>enumerateDevices()\<close> settles
  (\<^verbatim>\<open>ensureMediaPermission\<close> catches its own failure and changes no state). The function is
  a closure of the effect that registered it: the selected ids it reads are those of the
  render in which the effect ran, the argument \<open>cap\<close>. A rejected enumeration leaves the
  body, so nothing is set. \<^verbatim>\<open>micList[0]\<close> is read only behind \<^verbatim>\<open>micList.length\<close>.
\<close>

definition syncDevices :: "Selection \<Rightarrow> MediaDeviceInfo list outcome \<Rightarrow> world \<Rightarrow> world" where
  "syncDevices cap enumerated w =
     (case enumerated of
        Rejected e \<Rightarrow> w
      | Resolved list \<Rightarrow>
          (let micList = filter (\<lambda>d. kind d = audioinput) list;
               camList = filter (\<lambda>d. kind d = videoinput) list;
               spkList = filter (\<lambda>d. kind d = audiooutput) list;
               w1 = w\<lparr> mics := micList, cameras := camList, speakers := spkList \<rparr>
           in case room w of
                None \<Rightarrow> w1
              | Some r \<Rightarrow>
                  (let tm = orElse (getActiveDevice r audioinput) (micId cap);
                       tc = orElse (getActiveDevice r videoinput) (cameraId cap);
                       ts = orElse (getActiveDevice r audiooutput) (speakerId cap);
                       tm' = (if micList \<noteq> [] \<and> findDevice tm micList = None
                              then deviceId (hd micList) else tm);
                       tc' = (if camList \<noteq> [] \<and> findDevice tc camList = None
                              then deviceId (hd camList) else tc);
                       ts' = (if spkList \<noteq> [] \<and> findDevice ts spkList = None
                              then deviceId (hd spkList) else ts)
                   in w1\<lparr> selectedMicId := tm', selectedCameraId := tc',
                           selectedSpeakerId := ts' \<rparr>)))"



definition idsOf :: "MediaDeviceInfo list \<Rightarrow> jsstring list" where
  "idsOf ds = map deviceId ds"

text \<open>
  \<^verbatim>\<open>handleDeviceChange\<close>: \<open>result\<close> is how \<^verbatim>\<open>room.switchActiveDevice(kind, id)\<close> settles; the
  handler does not look at the value the promise resolves with.
\<close>

definition handleDeviceChange ::
  "MediaDeviceKind \<Rightarrow> jsstring \<Rightarrow> bool outcome \<Rightarrow> world \<Rightarrow> world" where
  "handleDeviceChange k i result w =
     (case room w of
        None \<Rightarrow> w
      | Some r \<Rightarrow>
          (let w1 = w\<lparr> transportCalls := transportCalls w @ [SwitchActiveDevice k i] \<rparr>
           in case result of
                Resolved b \<Rightarrow>
                  (let w2 = (if k = audioinput then w1\<lparr> selectedMicId := i \<rparr> else w1);
                       w3 = (if k = videoinput then w2\<lparr> selectedCameraId := i \<rparr> else w2);
                       w4 = (if k = audiooutput then w3\<lparr> selectedSpeakerId := i \<rparr> else w3)
                   in w4\<lparr> toasts := toasts w4 @ [ToastSuccess DeviceChanged] \<rparr>)
              | Rejected e \<Rightarrow> w1\<lparr> toasts := toasts w1 @ [ToastError SwitchFailed] \<rparr>))"

subsection \<open>Screen share\<close>

text \<open>
  The listener registered on the host bridge, when there is one: the host sends the
  capture sources and the picker opens.
\<close>

definition onOpenScreenPicker :: "ScreenSource list \<Rightarrow> world \<Rightarrow> world" where
  "onOpenScreenPicker sources w =
     (if ipcRenderer w then w\<lparr> availableScreens := sources, showScreenPickerModal := True \<rparr>
      else w)"

text \<open>
  The effect on \<^verbatim>\<open>[localParticipant, tracks]\<close>: it runs after every change of the track set.
\<close>

definition shareFlagEffect :: "world \<Rightarrow> world" where
  "shareFlagEffect w =
     (case localParticipant w of
        None \<Rightarrow> w
      | Some lp \<Rightarrow> w\<lparr> isScreenSharing := isScreenShareEnabled lp \<rparr>)"

text \<open>
  \<^verbatim>\<open>toggleScreenShare\<close> has an \<^verbatim>\<open>await\<close> in the middle, so it is two steps. The first runs up
  to the call of \<^verbatim>\<open>setScreenShareEnabled(newState, {audio: false})\<close> and yields the
  \<open>newState\<close> the continuation keeps, or nothing when there is no local participant. The
  second is the continuation, run when the promise settles.
\<close>

definition toggleScreenShare_request :: "world \<Rightarrow> bool option \<times> world" where
  "toggleScreenShare_request w =
     (case localParticipant w of
        None \<Rightarrow> (None, w\<lparr> toasts := toasts w @ [ToastError NoUserInfo] \<rparr>)
      | Some lp \<Rightarrow>
          (let newState = \<not> isScreenSharing w
           in (Some newState,
               w\<lparr> transportCalls := transportCalls w @ [SetScreenShareEnabled newState] \<rparr>)))"

definition isCancellation :: "JsError \<Rightarrow> bool" where
  "isCancellation e \<longleftrightarrow>
     e_name e = js ''NotAllowedError''
     \<or> (case e_message e of None \<Rightarrow> False | Some m \<Rightarrow> includes_str m (js ''Permission denied''))"

definition toggleScreenShare_settled :: "bool \<Rightarrow> unit outcome \<Rightarrow> world \<Rightarrow> world" where
  "toggleScreenShare_settled newState result w =
     (case result of
        Resolved u \<Rightarrow> w\<lparr> isScreenSharing := newState \<rparr>
      | Rejected e \<Rightarrow>
          (let w1 = (if isCancellation e then w\<lparr> toasts := toasts w @ [ToastInfo Cancelled] \<rparr>
                     else w\<lparr> toasts := toasts w @ [ToastError ShareStartFailed] \<rparr>)
           in w1\<lparr> isScreenSharing := False \<rparr>))"

text \<open>
  The transport between the two steps. It is not code of this repository; the model takes
  of it what its interface says: a call that resolves has put the local participant's
  screen-share flag at the requested value, a call that rejects has left it as it was.
\<close>

definition transportSetScreenShare :: "bool \<Rightarrow> unit outcome \<Rightarrow> world \<Rightarrow> world" where
  "transportSetScreenShare newState result w =
     (case result of
        Resolved u \<Rightarrow>
          w\<lparr> localParticipant :=
                map_option (\<lambda>lp. lp\<lparr> isScreenShareEnabled := newState \<rparr>) (localParticipant w) \<rparr>
      | Rejected e \<Rightarrow> w)"

text \<open>A whole toggle with nothing in between: request, transport, continuation.\<close>

definition toggleScreenShare :: "unit outcome \<Rightarrow> world \<Rightarrow> world" where
  "toggleScreenShare result w =
     (case toggleScreenShare_request w of
        (None, w1) \<Rightarrow> w1
      | (Some newState, w1) \<Rightarrow>
          toggleScreenShare_settled newState result (transportSetScreenShare newState result w1))"

text \<open>\<^verbatim>\<open>ipcRenderer?.selectScreenSource(x)\<close>: sent when the bridge exists.\<close>

definition selectScreenSource :: "jsstring option \<Rightarrow> world \<Rightarrow> world" where
  "selectScreenSource x w = (if ipcRenderer w then w\<lparr> hostCalls := hostCalls w @ [x] \<rparr> else w)"

definition handleScreenSelect :: "jsstring \<Rightarrow> world \<Rightarrow> world" where
  "handleScreenSelect i w = (selectScreenSource (Some i) w)\<lparr> showScreenPickerModal := False \<rparr>"

definition handleScreenPickerCancel :: "world \<Rightarrow> world" where
  "handleScreenPickerCancel w =
     (selectScreenSource None w)\<lparr> showScreenPickerModal := False, isScreenSharing := False \<rparr>"

text \<open>
  The states of the specification, read off the two flags of the hook: the picker is open
  while the host's answer is awaited; otherwise the share is \<open>Active\<close> or \<open>Idle\<close> as the
  share flag says.
\<close>

definition isActive :: "world \<Rightarrow> bool" where
  "isActive w \<longleftrightarrow> isScreenSharing w \<and> \<not> showScreenPickerModal w"

definition isIdle :: "world \<Rightarrow> bool" where
  "isIdle w \<longleftrightarrow> \<not> isScreenSharing w \<and> \<not> showScreenPickerModal w"

definition awaitingHostSelection :: "world \<Rightarrow> bool" where
  "awaitingHostSelection w \<longleftrightarrow> showScreenPickerModal w \<and> ipcRenderer w"

text \<open>The transport's own flag; without a local participant nothing is shared.\<close>

definition transportShareEnabled :: "world \<Rightarrow> bool" where
  "transportShareEnabled w =
     (case localParticipant w of None \<Rightarrow> False | Some lp \<Rightarrow> isScreenShareEnabled lp)"

subsection \<open>Ending the meeting\<close>

text \<open>
  \<^verbatim>\<open>confirmEndMeeting\<close> reads the clock for \<open>endTime\<close>, then for the record id.
  \<^verbatim>\<open>Date.prototype.toISOString\<close> is the argument \<open>toISOString\<close> of the model. \<^verbatim>\<open>participants[i]?.name || lit\<close>
  falls back to the placeholder when there is no i-th participant or its name is empty.
  The \<^verbatim>\<open>meetings\<close> item of local storage is the list of records it parses to.
\<close>

definition recTranslation :: "(Date \<Rightarrow> jsstring) \<Rightarrow> TranslationLog \<Rightarrow> RecTranslation" where
  "recTranslation toISOString log =
     \<lparr> rt_id = t_id log, rt_speaker = t_speaker log,
       rt_originalText = t_originalText log, rt_translatedText = t_translatedText log,
       rt_originalLang = (if t_originalLang log = ja then LabelJa else LabelKo),
       rt_translatedLang = (if t_originalLang log = ja then LabelKo else LabelJa),
       rt_timestamp = toISOString (t_timestamp log) \<rparr>"

definition recChat :: "(Date \<Rightarrow> jsstring) \<Rightarrow> ChatMessage \<Rightarrow> RecChat" where
  "recChat toISOString msg =
     \<lparr> rc_id = c_id msg, rc_userName = c_sender msg, rc_message = c_message msg,
       rc_timestamp = toISOString (c_timestamp msg), rc_isAI = c_isAI msg \<rparr>"

definition recParticipant :: "Participant \<Rightarrow> RecParticipant" where
  "recParticipant p =
     \<lparr> rp_id = p_id p, rp_name = p_name p,
       rp_language = Some (case p_language p of None \<Rightarrow> ja | Some l \<Rightarrow> l) \<rparr>"

definition nameAt :: "Participant list \<Rightarrow> nat \<Rightarrow> assignee \<Rightarrow> assignee" where
  "nameAt ps i placeholder =
     (if i < length ps \<and> truthy (p_name (ps ! i)) then Person (p_name (ps ! i))
      else placeholder)"

definition meetingRecord :: "(Date \<Rightarrow> jsstring) \<Rightarrow> Date \<Rightarrow> int \<Rightarrow> world \<Rightarrow> MeetingRecord" where
  "meetingRecord toISOString endTime idNow w =
     \<lparr> mr_id = toString idNow,
       mr_title = meetingTitle w,
       mr_startTime = toISOString (startTime w),
       mr_endTime = toISOString endTime,
       mr_participants =
         \<lparr> rp_id = js ''me'', rp_name = u_name (currentUser w),
           rp_language = u_language (currentUser w) \<rparr>
         # map recParticipant (participants w),
       mr_translationLog = map (recTranslation toISOString) (translationLogs w),
       mr_chatMessages = map (recChat toISOString) (chatMessages w),
       mr_summary =
         \<lparr> keyPoints = [KeyPoint 0, KeyPoint 1, KeyPoint 2, KeyPoint 3],
           actionItems =
             [ActionItem 0 (nameAt (participants w) 0 PlaceholderA),
              ActionItem 1 (nameAt (participants w) 1 PlaceholderB),
              ActionItem 2 (Person (u_name (currentUser w))),
              ActionItem 3 UriTomoAI],
           decisions = [Decision 0, Decision 1, Decision 2] \<rparr> \<rparr>"

definition confirmEndMeeting :: "(Date \<Rightarrow> jsstring) \<Rightarrow> Date \<Rightarrow> int \<Rightarrow> world \<Rightarrow> world" where
  "confirmEndMeeting toISOString endTime idNow w =
     (let r = meetingRecord toISOString endTime idNow w
      in w\<lparr> storedMeetings := storedMeetings w @ [r],
            navigations := navigations w @ [js ''/minutes/'' @ mr_id r] \<rparr>)"


subsection \<open>Example sessions\<close>

text \<open>
  Concrete states for the worked instances: a user in a desktop shell (host bridge present)
  and in a browser (absent), with a local participant that is not sharing, the microphone
  \<open>old-mic\<close> passed in as the initial device, and a room whose active microphone is
  \<open>usb-mic\<close> and which reports no active camera or speaker.
\<close>

definition aki :: User where
  "aki = \<lparr> u_name = js ''Aki'', u_language = Some ja \<rparr>"

definition theRoom :: Room where
  "theRoom = \<lparr> activeAudioInput = Some (js ''usb-mic''), activeVideoInput = None,
               activeAudioOutput = None \<rparr>"

definition desktopWorld :: world where
  "desktopWorld =
     initialWorld aki (js ''Weekly'') 1700000000000 (Some (js ''old-mic'')) None None
       (Some theRoom) (Some \<lparr> isScreenShareEnabled = False \<rparr>) True"

definition browserWorld :: world where
  "browserWorld =
     initialWorld aki (js ''Weekly'') 1700000000000 (Some (js ''old-mic'')) None None
       (Some theRoom) (Some \<lparr> isScreenShareEnabled = False \<rparr>) False"

definition device :: "string \<Rightarrow> MediaDeviceKind \<Rightarrow> MediaDeviceInfo" where
  "device i k = \<lparr> deviceId = js i, kind = k, label = [] \<rparr>"

text \<open>The desktop session with a share requested and the host's picker open.\<close>

definition pickerWorld :: world where
  "pickerWorld =
     onOpenScreenPicker
       [\<lparr> s_id = js ''screen-1'', s_name = js ''Screen 1'', s_thumbnail = [] \<rparr>]
       (snd (toggleScreenShare_request desktopWorld))"

text \<open>
  The browser session with a share requested, the transport already sharing and the track
  effect run, before the request's promise has settled.
\<close>

definition trackArrivedWorld :: world where
  "trackArrivedWorld =
     shareFlagEffect (transportSetScreenShare True (Resolved ())
       (snd (toggleScreenShare_request browserWorld)))"

definition engineError :: JsError where
  "engineError = \<lparr> e_name = js ''Error'', e_message = Some (js ''engine closed'') \<rparr>"

definition deniedError :: JsError where
  "deniedError = \<lparr> e_name = js ''NotAllowedError'', e_message = None \<rparr>"

definition systemDenial :: JsError where
  "systemDenial = \<lparr> e_name = js ''Error'',
                    e_message = Some (js ''Permission denied by system'') \<rparr>"

text \<open>The browser session at the end of a meeting: one chat entry, one translation entry.\<close>

definition closingWorld :: world where
  "closingWorld =
     (chatRun [(1700000001000, 1700000001000, TypeInput (js ''hello'')),
               (1700000002000, 1700000002001, SendChat)] browserWorld)
       \<lparr> translationLogs :=
           [\<lparr> t_id = js ''1'', t_speaker = js ''User B'', t_originalText = js ''annyeong'',
              t_translatedText = js ''konnichiwa'', t_originalLang = ko,
              t_timestamp = 1700000003000 \<rparr>] \<rparr>"


section \<open>Properties\<close>

lemmas example_defs =
  desktopWorld_def browserWorld_def pickerWorld_def closingWorld_def aki_def theRoom_def
  initialWorld_def device_def engineError_def deniedError_def systemDenial_def js_def
  orElse_def truthy_def

subsection \<open>Device selection\<close>

lemma findDevice_None_iff: "findDevice i ds = None \<longleftrightarrow> i \<notin> set (idsOf ds)"
  by (auto simp: findDevice_def idsOf_def find_None_iff)

lemma hd_ids: "ds \<noteq> [] \<Longrightarrow> deviceId (hd ds) \<in> set (idsOf ds)"
  by (cases ds) (simp_all add: idsOf_def)




text \<open>
  Claim C5. Reconciliation is idempotent: run again on the same enumeration result with the
  same room, it changes nothing, whether the second run is the same closure (holding the
  same selected ids as the first) or a closure of a later render (holding the ids the first
  run selected).
\<close>

theorem sync_idempotent:
  "syncDevices cap e (syncDevices cap e w) = syncDevices cap e w
   \<and> syncDevices (selected (syncDevices cap e w)) e (syncDevices cap e w) = syncDevices cap e w"
  by (cases e; cases "room w")
     (auto simp: syncDevices_def Let_def findDevice_None_iff hd_ids orElse_def truthy_def
                 selected_def
           split: option.splits)

lemma handleDeviceChange_rejected:
  "selected (handleDeviceChange k i (Rejected e) w) = selected w
   \<and> toasts (handleDeviceChange k i (Rejected e) w)
       = (if room w = None then toasts w else toasts w @ [ToastError SwitchFailed])"
  by (cases k) (auto simp: handleDeviceChange_def selected_def Let_def split: option.splits)

text \<open>
  Claim C7 does not hold of the code. When the promise of \<^verbatim>\<open>switchActiveDevice\<close> rejects, the
  catch branch shows the error and leaves the selection, as the lemma above says. But the
  transport also reports a failed switch by resolving with \<^verbatim>\<open>false\<close>, and the handler never
  looks at that value: in the desktop session, with \<open>old-mic\<close> selected, a switch to
  \<open>new-mic\<close> that resolves with \<^verbatim>\<open>false\<close> selects \<open>new-mic\<close> and shows the success toast.
\<close>

theorem device_switch_reported_failure:
  "selectedMicId desktopWorld = js ''old-mic''
   \<and> selectedMicId (handleDeviceChange audioinput (js ''new-mic'') (Resolved False) desktopWorld)
       = js ''new-mic''
   \<and> toasts (handleDeviceChange audioinput (js ''new-mic'') (Resolved False) desktopWorld)
       = [ToastSuccess DeviceChanged]"
  by (simp add: handleDeviceChange_def example_defs)

subsection \<open>Screen share\<close>

text \<open>
  Claim C2, as the code has it. Selecting a source sends the chosen id to the host, once,
  when the bridge is present, and closes the picker. The handler makes no call on the
  transport, does not touch the local participant and leaves the share flag as it was. The
  share is \<open>Active\<close> once the pending request for \<^verbatim>\<open>setScreenShareEnabled(true)\<close> resolves.
\<close>

theorem handle_screen_select:
  "hostCalls (handleScreenSelect i w)
     = (if ipcRenderer w then hostCalls w @ [Some i] else hostCalls w)
   \<and> \<not> showScreenPickerModal (handleScreenSelect i w)
   \<and> isScreenSharing (handleScreenSelect i w) = isScreenSharing w
   \<and> transportCalls (handleScreenSelect i w) = transportCalls w
   \<and> localParticipant (handleScreenSelect i w) = localParticipant w
   \<and> isActive (toggleScreenShare_settled True (Resolved ()) (handleScreenSelect i w))"
  by (simp add: handleScreenSelect_def selectScreenSource_def isActive_def
        toggleScreenShare_settled_def)

theorem handle_screen_select_witness:
  "hostCalls (handleScreenSelect (js ''screen-1'') pickerWorld) = [Some (js ''screen-1'')]
   \<and> isActive (toggleScreenShare_settled True (Resolved ())
                 (handleScreenSelect (js ''screen-1'') pickerWorld))"
  using handle_screen_select [of "js ''screen-1''" pickerWorld]
  by (simp add: onOpenScreenPicker_def toggleScreenShare_request_def example_defs)

text \<open>
  Where C2 as written fails: in the desktop session with the picker open, the user selects
  \<open>screen-1\<close>. The host has the id; the share is not \<open>Active\<close>, and the only call on the
  transport is the earlier request, which carries no source id.
\<close>

theorem select_not_active_counterexample:
  "awaitingHostSelection pickerWorld
   \<and> \<not> isActive (handleScreenSelect (js ''screen-1'') pickerWorld)
   \<and> transportCalls (handleScreenSelect (js ''screen-1'') pickerWorld)
       = [SetScreenShareEnabled True]
   \<and> hostCalls (handleScreenSelect (js ''screen-1'') pickerWorld) = [Some (js ''screen-1'')]"
  by (simp add: handleScreenSelect_def selectScreenSource_def isActive_def
        awaitingHostSelection_def onOpenScreenPicker_def toggleScreenShare_request_def
        example_defs)

text \<open>
  Claim C3. While the host's picker is open, cancelling ends in \<open>Idle\<close> (share flag off,
  picker closed) and sends the host exactly one message, the null selection. When the
  request that opened the picker then rejects, the state is still \<open>Idle\<close> and no further
  message has gone to the host.
\<close>

theorem picker_cancel_idle_one_null:
  assumes "awaitingHostSelection w"
  shows "isIdle (handleScreenPickerCancel w)
    \<and> hostCalls (handleScreenPickerCancel w) = hostCalls w @ [None]
    \<and> count_list (hostCalls (handleScreenPickerCancel w)) None
        = count_list (hostCalls w) None + 1
    \<and> isIdle (toggleScreenShare_settled newState (Rejected e) (handleScreenPickerCancel w))
    \<and> hostCalls (toggleScreenShare_settled newState (Rejected e) (handleScreenPickerCancel w))
        = hostCalls w @ [None]"
  using assms
  by (simp add: handleScreenPickerCancel_def selectScreenSource_def isIdle_def
        awaitingHostSelection_def toggleScreenShare_settled_def Let_def)

theorem picker_cancel_idle_one_null_witness:
  "awaitingHostSelection pickerWorld
   \<and> isIdle (handleScreenPickerCancel pickerWorld)
   \<and> hostCalls (handleScreenPickerCancel pickerWorld) = [None]
   \<and> isIdle (toggleScreenShare_settled True (Rejected deniedError)
               (handleScreenPickerCancel pickerWorld))"
  using picker_cancel_idle_one_null [of pickerWorld True deniedError]
  by (simp add: awaitingHostSelection_def onOpenScreenPicker_def toggleScreenShare_request_def
        example_defs)

text \<open>
  Claim C4, as the code has it. With a local participant present: after a track-set change
  the flag is the transport's flag; after a toggle that resolves, the flag is the requested
  state and so is the transport's flag, and two such toggles bring both back to where the
  flag was; after a toggle that rejects, the flag is off, while the transport's flag is what
  it was.
\<close>

theorem share_flag_follows_transport:
  assumes "localParticipant w \<noteq> None"
  shows "isScreenSharing (shareFlagEffect w) = transportShareEnabled (shareFlagEffect w)
    \<and> isScreenSharing (toggleScreenShare (Resolved ()) w) = (\<not> isScreenSharing w)
    \<and> transportShareEnabled (toggleScreenShare (Resolved ()) w) = (\<not> isScreenSharing w)
    \<and> \<not> isScreenSharing (toggleScreenShare (Rejected e) w)
    \<and> transportShareEnabled (toggleScreenShare (Rejected e) w) = transportShareEnabled w
    \<and> isScreenSharing (toggleScreenShare (Resolved ()) (toggleScreenShare (Resolved ()) w))
        = isScreenSharing w
    \<and> transportShareEnabled
         (toggleScreenShare (Resolved ()) (toggleScreenShare (Resolved ()) w))
        = isScreenSharing w"
  using assms
  by (auto simp: shareFlagEffect_def transportShareEnabled_def toggleScreenShare_def
        toggleScreenShare_request_def toggleScreenShare_settled_def transportSetScreenShare_def
        Let_def split: option.splits)

theorem share_flag_follows_transport_witness:
  "localParticipant browserWorld \<noteq> None
   \<and> isIdle browserWorld
   \<and> isActive (toggleScreenShare (Resolved ()) browserWorld)
   \<and> transportShareEnabled (toggleScreenShare (Resolved ()) browserWorld)
   \<and> isIdle (toggleScreenShare (Resolved ()) (toggleScreenShare (Resolved ()) browserWorld))
   \<and> \<not> transportShareEnabled
          (toggleScreenShare (Resolved ()) (toggleScreenShare (Resolved ()) browserWorld))"
  using share_flag_follows_transport [of browserWorld engineError]
  by (simp add: isIdle_def isActive_def toggleScreenShare_def toggleScreenShare_request_def
        toggleScreenShare_settled_def transportSetScreenShare_def example_defs)

text \<open>
  Where C4 as written fails: the browser session is sharing (flag and transport agree), the
  user toggles the share off and the transport rejects the call. The flag is forced off; the
  transport is still sharing.
\<close>

theorem share_flag_counterexample:
  "isScreenSharing (toggleScreenShare (Resolved ()) browserWorld)
   \<and> transportShareEnabled (toggleScreenShare (Resolved ()) browserWorld)
   \<and> \<not> isScreenSharing (toggleScreenShare (Rejected engineError)
                           (toggleScreenShare (Resolved ()) browserWorld))
   \<and> transportShareEnabled (toggleScreenShare (Rejected engineError)
                              (toggleScreenShare (Resolved ()) browserWorld))"
  by (simp add: transportShareEnabled_def toggleScreenShare_def
        toggleScreenShare_request_def toggleScreenShare_settled_def transportSetScreenShare_def
        example_defs)

text \<open>
  Claim C6. From \<open>Idle\<close>, with a local participant, the toggle asks the transport to enable
  the share. If the call resolves the state is \<open>Active\<close> and nothing is reported. If it
  rejects the state is \<open>Idle\<close> and one toast is shown: the informational one for a
  cancellation-class error (name \<open>NotAllowedError\<close>, or a message containing
  \<open>Permission denied\<close>), the error one for any other. The share flag is forced off by the
  rejection itself: in whatever state \<open>v\<close> the rejection arrives, also one where the flag
  has been turned on meanwhile, the flag is off afterwards, the picker is as it was and the
  same toast is shown; a resolution arriving in any state turns the flag on.
\<close>

theorem native_share_prompt_outcomes:
  assumes "localParticipant w \<noteq> None" and "isIdle w"
  shows "isActive (toggleScreenShare (Resolved ()) w)
    \<and> toasts (toggleScreenShare (Resolved ()) w) = toasts w
    \<and> isIdle (toggleScreenShare (Rejected e) w)
    \<and> toasts (toggleScreenShare (Rejected e) w)
        = toasts w @ [if isCancellation e then ToastInfo Cancelled
                      else ToastError ShareStartFailed]
    \<and> transportCalls (toggleScreenShare result w)
        = transportCalls w @ [SetScreenShareEnabled True]
    \<and> fst (toggleScreenShare_request w) = Some True
    \<and> \<not> isScreenSharing (toggleScreenShare_settled True (Rejected e) v)
    \<and> showScreenPickerModal (toggleScreenShare_settled True (Rejected e) v)
        = showScreenPickerModal v
    \<and> toasts (toggleScreenShare_settled True (Rejected e) v)
        = toasts v @ [if isCancellation e then ToastInfo Cancelled
                      else ToastError ShareStartFailed]
    \<and> isScreenSharing (toggleScreenShare_settled True (Resolved ()) v)"
  using assms
  by (auto simp: isIdle_def isActive_def toggleScreenShare_def
        toggleScreenShare_request_def toggleScreenShare_settled_def transportSetScreenShare_def
        Let_def split: option.splits outcome.splits)

theorem native_share_prompt_outcomes_witness:
  "localParticipant browserWorld \<noteq> None \<and> isIdle browserWorld \<and> \<not> ipcRenderer browserWorld
   \<and> isActive (toggleScreenShare (Resolved ()) browserWorld)
   \<and> isIdle (toggleScreenShare (Rejected deniedError) browserWorld)
   \<and> toasts (toggleScreenShare (Rejected deniedError) browserWorld) = [ToastInfo Cancelled]
   \<and> toasts (toggleScreenShare (Rejected systemDenial) browserWorld) = [ToastInfo Cancelled]
   \<and> isIdle (toggleScreenShare (Rejected engineError) browserWorld)
   \<and> toasts (toggleScreenShare (Rejected engineError) browserWorld)
       = [ToastError ShareStartFailed]
   \<and> isScreenSharing trackArrivedWorld
   \<and> \<not> isScreenSharing (toggleScreenShare_settled True (Rejected engineError) trackArrivedWorld)
   \<and> toasts (toggleScreenShare_settled True (Rejected engineError) trackArrivedWorld)
       = [ToastError ShareStartFailed]"
  using native_share_prompt_outcomes [of browserWorld deniedError "Resolved ()" trackArrivedWorld]
        native_share_prompt_outcomes [of browserWorld systemDenial "Resolved ()" trackArrivedWorld]
        native_share_prompt_outcomes [of browserWorld engineError "Resolved ()" trackArrivedWorld]
  by (simp add: isIdle_def isCancellation_def trackArrivedWorld_def shareFlagEffect_def
        transportSetScreenShare_def toggleScreenShare_request_def example_defs)

subsection \<open>Chat\<close>

lemma trim_empty_iff: "trim s = [] \<longleftrightarrow> (\<forall>c \<in> set s. isWhiteSpace c)"
proof
  assume "trim s = []"
  then have "dropWhile isWhiteSpace (rev (dropWhile isWhiteSpace s)) = []"
    by (simp add: trim_def)
  then have "\<forall>c \<in> set (rev (dropWhile isWhiteSpace s)). isWhiteSpace c"
    by simp
  then have "\<forall>c \<in> set (dropWhile isWhiteSpace s). isWhiteSpace c" by simp
  then have "dropWhile isWhiteSpace s = []"
    by (metis dropWhile_eq_Nil_conv dropWhile_idem)
  then show "\<forall>c \<in> set s. isWhiteSpace c" by simp
next
  assume "\<forall>c \<in> set s. isWhiteSpace c"
  then have "dropWhile isWhiteSpace s = []" by simp
  then show "trim s = []" by (simp add: trim_def del: dropWhile_eq_Nil_conv)
qed

text \<open>
  Claim C10. If the input is empty or all white space, sending changes nothing. Otherwise
  the log grows by exactly one entry, which carries the input text as typed, the user's
  name and the clock reading, and the input field is cleared.
\<close>

theorem send_chat_blank_or_one:
  "((\<forall>c \<in> set (chatInput w). isWhiteSpace c) \<longrightarrow> handleSendChat idNow tsNow w = w)
   \<and> (\<not> (\<forall>c \<in> set (chatInput w). isWhiteSpace c) \<longrightarrow>
        (\<exists>m. chatMessages (handleSendChat idNow tsNow w) = chatMessages w @ [m]
             \<and> c_message m = chatInput w \<and> c_timestamp m = tsNow
             \<and> c_sender m = u_name (currentUser w))
        \<and> chatInput (handleSendChat idNow tsNow w) = [])"
  by (simp add: handleSendChat_def truthy_def trim_empty_iff)

theorem send_chat_blank_or_one_witness:
  "list_all isWhiteSpace (chatInput (setChatInput (js ''  '') browserWorld))
   \<and> handleSendChat 5 6 (setChatInput (js ''  '') browserWorld)
       = setChatInput (js ''  '') browserWorld
   \<and> \<not> list_all isWhiteSpace (chatInput (setChatInput (js '' hello'') browserWorld))
   \<and> map c_message (chatMessages (handleSendChat 5 6 (setChatInput (js '' hello'') browserWorld)))
       = [js '' hello'']
   \<and> chatInput (handleSendChat 5 6 (setChatInput (js '' hello'') browserWorld)) = []"
  using send_chat_blank_or_one [of "setChatInput (js ''  '') browserWorld" 5 6]
        send_chat_blank_or_one [of "setChatInput (js '' hello'') browserWorld" 5 6]
  by (auto simp: setChatInput_def isWhiteSpace_def example_defs)

lemma chatStep_appends:
  "chatMessages (chatStep a w) = chatMessages w
   \<or> (\<exists>m. chatMessages (chatStep a w) = chatMessages w @ [m] \<and> c_timestamp m = readingOf a)"
proof (cases a)
  case (fields idNow tsNow act)
  then show ?thesis
    by (cases act)
       (auto simp: readingOf_def setChatInput_def handleSendChat_def handleStickerSelect_def
                   handleFileAttach_def split: option.splits)
qed

lemma chatRun_append: "chatRun (as @ bs) w = chatRun bs (chatRun as w)"
  by (induction as arbitrary: w) simp_all

lemma chatRun_appends:
  "\<exists>new. chatMessages (chatRun acts w) = chatMessages w @ new
         \<and> set (map c_timestamp new) \<subseteq> set (map readingOf acts)
         \<and> (sorted (map readingOf acts) \<longrightarrow> sorted (map c_timestamp new))"
proof (induction acts arbitrary: w)
  case Nil
  then show ?case by simp
next
  case (Cons a as)
  obtain new1 where n1: "chatMessages (chatRun as (chatStep a w)) = chatMessages (chatStep a w) @ new1"
    and s1: "set (map c_timestamp new1) \<subseteq> set (map readingOf as)"
    and o1: "sorted (map readingOf as) \<longrightarrow> sorted (map c_timestamp new1)"
    using Cons.IH [of "chatStep a w"] by blast
  obtain n0 where n0: "chatMessages (chatStep a w) = chatMessages w @ n0"
    and t0: "\<forall>m \<in> set n0. c_timestamp m = readingOf a"
    using chatStep_appends [of a w] by (metis append_Nil2 empty_iff empty_set set_ConsD)
  have eq: "chatMessages (chatRun (a # as) w) = chatMessages w @ (n0 @ new1)"
    using n0 n1 by simp
  have sub: "set (map c_timestamp (n0 @ new1)) \<subseteq> set (map readingOf (a # as))"
    using s1 t0 by auto
  have ord: "sorted (map readingOf (a # as)) \<longrightarrow> sorted (map c_timestamp (n0 @ new1))"
  proof
    assume srt: "sorted (map readingOf (a # as))"
    then have le: "\<forall>x \<in> set (map readingOf as). readingOf a \<le> x" by simp
    have "sorted (map c_timestamp new1)" using srt o1 by simp
    moreover have "sorted (map c_timestamp n0)"
      using t0 by (induction n0) auto
    moreover have "\<forall>x \<in> set (map c_timestamp n0). \<forall>y \<in> set (map c_timestamp new1). x \<le> y"
      using t0 le s1 by auto
    ultimately show "sorted (map c_timestamp (n0 @ new1))"
      by (simp add: sorted_append)
  qed
  show ?case using eq sub ord by blast
qed

lemma appended_run:
  "chatMessages (chatRun acts w) = chatMessages w @ appended w (chatRun acts w)"
  using chatRun_appends [of acts w] by (auto simp: appended_def)

lemma chatRun_stamps:
  "subseq (map c_timestamp (appended w (chatRun acts w))) (map readingOf acts)"
proof (induction acts arbitrary: w)
  case Nil
  then show ?case by (simp add: appended_def)
next
  case (Cons a as)
  define w1 where "w1 = chatStep a w"
  have run: "chatMessages (chatRun as w1) = chatMessages w1 @ appended w1 (chatRun as w1)"
    by (rule appended_run)
  have ih: "subseq (map c_timestamp (appended w1 (chatRun as w1))) (map readingOf as)"
    by (rule Cons.IH)
  consider (same) "chatMessages w1 = chatMessages w"
    | (one) m where "chatMessages w1 = chatMessages w @ [m]" "c_timestamp m = readingOf a"
    using chatStep_appends [of a w] unfolding w1_def by blast
  then show ?case
  proof cases
    case same
    then have "appended w (chatRun (a # as) w) = appended w1 (chatRun as w1)"
      by (simp add: appended_def w1_def)
    moreover have "subseq (map c_timestamp (appended w1 (chatRun as w1)))
                     (readingOf a # map readingOf as)"
      using ih by (rule list_emb_Cons)
    ultimately show ?thesis by simp
  next
    case one
    have "chatMessages (chatRun (a # as) w) = chatMessages w @ m # appended w1 (chatRun as w1)"
      using run one(1) by (simp add: w1_def)
    then have "appended w (chatRun (a # as) w) = m # appended w1 (chatRun as w1)"
      by (simp add: appended_def)
    then show ?thesis using ih one(2) by simp
  qed
qed

text \<open>
  Claim C9, as the code has it. Take any run of chat actions (typing, sending, stickers,
  attachments) split in two. The log after the run is the log before, then the entries of
  the first part, then those of the second: nothing that was there is moved or lost, and an
  entry A of the first part precedes an entry B of the second. The timestamps of the entries
  added are, in the order of the log, clock readings of the actions in the order of the
  actions. So when the readings are in order, the timestamp of A is no later than that of
  B and the timestamps of all the entries added are in order.
\<close>

theorem chat_append_order:
  "chatMessages (chatRun (as @ bs) w)
     = chatMessages w @ appended w (chatRun as w)
         @ appended (chatRun as w) (chatRun (as @ bs) w)
   \<and> subseq (map c_timestamp (appended w (chatRun (as @ bs) w))) (map readingOf (as @ bs))
   \<and> (sorted (map readingOf (as @ bs)) \<longrightarrow>
        (\<forall>A \<in> set (appended w (chatRun as w)).
           \<forall>B \<in> set (appended (chatRun as w) (chatRun (as @ bs) w)).
             c_timestamp A \<le> c_timestamp B)
        \<and> sorted (map c_timestamp (appended w (chatRun (as @ bs) w))))"
proof -
  define w1 where "w1 = chatRun as w"
  define w2 where "w2 = chatRun (as @ bs) w"
  define X where "X = appended w w1"
  define Y where "Y = appended w1 w2"
  have e1: "chatMessages w1 = chatMessages w @ X"
    unfolding X_def w1_def by (rule appended_run)
  have e2: "chatMessages w2 = chatMessages w1 @ Y"
    unfolding Y_def w2_def w1_def using appended_run [of bs "chatRun as w"]
    by (simp add: chatRun_append)
  have whole: "chatMessages w2 = chatMessages w @ X @ Y"
    using e1 e2 by simp
  then have split: "appended w w2 = X @ Y"
    by (simp add: appended_def)
  have stamps: "subseq (map c_timestamp (appended w w2)) (map readingOf (as @ bs))"
    unfolding w2_def by (rule chatRun_stamps)
  have ordered: "(\<forall>A \<in> set X. \<forall>B \<in> set Y. c_timestamp A \<le> c_timestamp B)
                 \<and> sorted (map c_timestamp (appended w w2))"
    if srt: "sorted (map readingOf (as @ bs))"
  proof -
    obtain new where n: "chatMessages w2 = chatMessages w @ new"
      and o: "sorted (map readingOf (as @ bs)) \<longrightarrow> sorted (map c_timestamp new)"
      unfolding w2_def using chatRun_appends [of "as @ bs" w] by blast
    have "new = appended w w2" using n by (simp add: appended_def)
    then have s: "sorted (map c_timestamp (appended w w2))" using o srt by simp
    then have "\<forall>A \<in> set X. \<forall>B \<in> set Y. c_timestamp A \<le> c_timestamp B"
      unfolding split by (auto simp: sorted_append)
    then show ?thesis using s by simp
  qed
  show ?thesis using whole stamps ordered unfolding X_def Y_def w1_def w2_def by blast
qed

text \<open>
  An instance: the user types and sends \<open>hi\<close>, then picks a sticker and attaches a file.
\<close>

theorem chat_append_order_witness:
  "sorted (map readingOf ([(10, 10, TypeInput (js ''hi'')), (11, 12, SendChat)]
             @ [(20, 20, SelectSticker (js '':)'')),
                (30, 31, AttachFile (Some (js ''a.txt'', js ''blob:1'')))]))
   \<and> map c_message (appended browserWorld
        (chatRun [(10, 10, TypeInput (js ''hi'')), (11, 12, SendChat)] browserWorld))
       = [js ''hi'']
   \<and> map c_timestamp (chatMessages
        (chatRun ([(10, 10, TypeInput (js ''hi'')), (11, 12, SendChat)]
             @ [(20, 20, SelectSticker (js '':)'')),
                (30, 31, AttachFile (Some (js ''a.txt'', js ''blob:1'')))]) browserWorld))
       = [12, 20, 31]
   \<and> map c_timestamp (appended browserWorld
        (chatRun [(10, 10, TypeInput (js ''hi'')), (11, 12, SendChat)] browserWorld))
       = [12]
   \<and> map c_timestamp (appended
        (chatRun [(10, 10, TypeInput (js ''hi'')), (11, 12, SendChat)] browserWorld)
        (chatRun ([(10, 10, TypeInput (js ''hi'')), (11, 12, SendChat)]
             @ [(20, 20, SelectSticker (js '':)'')),
                (30, 31, AttachFile (Some (js ''a.txt'', js ''blob:1'')))]) browserWorld))
       = [20, 31]"
  using chat_append_order [of "[(10, 10, TypeInput (js ''hi'')), (11, 12, SendChat)]"
          "[(20, 20, SelectSticker (js '':)'')),
            (30, 31, AttachFile (Some (js ''a.txt'', js ''blob:1'')))]" browserWorld]
  by (simp add: readingOf_def setChatInput_def handleSendChat_def handleStickerSelect_def
        handleFileAttach_def appended_def trim_def isWhiteSpace_def example_defs)

text \<open>
  Where C9 as written fails: the user sends \<open>a\<close> when the clock reads 5, the clock is set
  back, and the user sends \<open>b\<close> when it reads 3. The entry \<open>a\<close> precedes \<open>b\<close> in the log and
  has the later timestamp.
\<close>

theorem chat_clock_set_back_counterexample:
  "map c_message (chatMessages
      (chatRun [(5, 5, TypeInput (js ''a'')), (5, 5, SendChat),
                (3, 3, TypeInput (js ''b'')), (3, 3, SendChat)] browserWorld))
     = [js ''a'', js ''b'']
   \<and> map c_timestamp (chatMessages
      (chatRun [(5, 5, TypeInput (js ''a'')), (5, 5, SendChat),
                (3, 3, TypeInput (js ''b'')), (3, 3, SendChat)] browserWorld))
     = [5, 3]
   \<and> \<not> (5 :: int) \<le> 3"
  by (simp add: setChatInput_def handleSendChat_def trim_def isWhiteSpace_def example_defs)

subsection \<open>Ending the meeting\<close>

text \<open>
  Claim C8. Ending the meeting twice on the same timeline, at any two times, stores two
  records whose chat transcripts are equal and whose translation transcripts are equal.
  The first call leaves the timeline as it was, so the second reads the same logs. Each
  transcript has one entry per log entry, in the log's order, with the entry's id, text and
  author.
\<close>

theorem finalize_twice_same_transcripts:
  "mr_chatMessages (last (storedMeetings (confirmEndMeeting f e2 n2 (confirmEndMeeting f e1 n1 w))))
     = mr_chatMessages (last (storedMeetings (confirmEndMeeting f e1 n1 w)))
   \<and> mr_translationLog
       (last (storedMeetings (confirmEndMeeting f e2 n2 (confirmEndMeeting f e1 n1 w))))
     = mr_translationLog (last (storedMeetings (confirmEndMeeting f e1 n1 w)))
   \<and> storedMeetings (confirmEndMeeting f e2 n2 (confirmEndMeeting f e1 n1 w))
     = storedMeetings w @ [meetingRecord f e1 n1 w, meetingRecord f e2 n2 w]
   \<and> chatMessages (confirmEndMeeting f e1 n1 w) = chatMessages w
   \<and> translationLogs (confirmEndMeeting f e1 n1 w) = translationLogs w
   \<and> map rc_id (mr_chatMessages (meetingRecord f e1 n1 w)) = map c_id (chatMessages w)
   \<and> map rc_message (mr_chatMessages (meetingRecord f e1 n1 w)) = map c_message (chatMessages w)
   \<and> map rc_userName (mr_chatMessages (meetingRecord f e1 n1 w)) = map c_sender (chatMessages w)
   \<and> map rt_id (mr_translationLog (meetingRecord f e1 n1 w)) = map t_id (translationLogs w)
   \<and> map rt_originalText (mr_translationLog (meetingRecord f e1 n1 w))
       = map t_originalText (translationLogs w)
   \<and> map rt_translatedText (mr_translationLog (meetingRecord f e1 n1 w))
       = map t_translatedText (translationLogs w)"
  by (simp add: confirmEndMeeting_def meetingRecord_def Let_def recChat_def recTranslation_def
        comp_def)

text \<open>
  An instance, with the decimal rendering of the time value standing in for the ISO one:
  the closing session is ended at two different times.
\<close>

theorem finalize_twice_same_transcripts_witness:
  "map rc_message (mr_chatMessages (last (storedMeetings
        (confirmEndMeeting toString 1700000009000 1700000009001
           (confirmEndMeeting toString 1700000005000 1700000005001 closingWorld)))))
     = [js ''hello'']
   \<and> map rt_translatedLang (mr_translationLog (last (storedMeetings
        (confirmEndMeeting toString 1700000009000 1700000009001
           (confirmEndMeeting toString 1700000005000 1700000005001 closingWorld)))))
     = [LabelJa]
   \<and> map mr_id (storedMeetings
        (confirmEndMeeting toString 1700000009000 1700000009001
           (confirmEndMeeting toString 1700000005000 1700000005001 closingWorld)))
     = [js ''1700000005001'', js ''1700000009001'']"
  using finalize_twice_same_transcripts [of toString 1700000009000 1700000009001
          1700000005000 1700000005001 closingWorld]
  by (simp add: meetingRecord_def recChat_def recTranslation_def toString_def digitsOf.simps
        setChatInput_def handleSendChat_def trim_def isWhiteSpace_def example_defs)

end
